theory Spec2Isabelle
  imports Complex_Main "HOL-Library.Char_ord" "HOL-Library.List_Lexorder"
begin

section \<open>Memory leak detection: data model\<close>

text \<open>
  A shallow embedding of \<^verbatim>\<open>memory_leak_detection_module.py\<close>.

  Conventions of the model.
  \<^item> Python \<^verbatim>\<open>float\<close> values are idealised as \<^typ>\<open>real\<close>: rounding, infinities and NaN
    are outside the model. A cell of a pandas column that may be missing (NaN, NaT, None)
    is an \<^typ>\<open>'a option\<close>.
  \<^item> Python \<^verbatim>\<open>int\<close> values are \<^typ>\<open>int\<close>; a count produced by \<^verbatim>\<open>len\<close> is converted with
    \<^term>\<open>int\<close>.
  \<^item> A pandas timestamp is its number of nanoseconds, an \<^typ>\<open>int\<close>; the seconds of a
    time difference are that number divided by \<open>10^9\<close>.
  \<^item> A table is the list of its rows in table order. A frame without columns
    (\<^verbatim>\<open>pd.DataFrame()\<close>) and a frame without rows are both ``empty'' for pandas.
  \<^item> A raised exception is the \<open>Inl\<close> branch of a sum type. The extra value
    \<open>NotANumber\<close> marks the one place where pandas would hand on a NaN that a real
    number cannot carry (the maximum of an empty series).
\<close>

datatype fault = KeyError | IndexError | ZeroDivisionError | ValueError | NotANumber

datatype MemoryLeakSeverity = NONE | LOW | MEDIUM | HIGH | CRITICAL

record MemoryThresholds =
  window_size :: string
  fragmentation :: real
  growth_slope :: real

definition default_thresholds :: MemoryThresholds where
  "default_thresholds =
     \<lparr>window_size = ''1s'', fragmentation = 0.7, growth_slope = 0.5\<rparr>"

record MemoryMetrics =
  unreleased_allocations :: int
  total_allocations :: int
  leak_rate :: real
  avg_allocation_size :: real
  max_continuous_growth_duration :: real
  memory_fragmentation_score :: real
  regression_slope :: real
  regression_intercept :: real

text \<open>A row of the ranked table of suspicious locations.\<close>

record location_row =
  loc_ptr :: string
  total_bytes :: real
  allocation_count :: nat
  event_context :: "string option"

record LeakAnalysisResult =
  severity :: MemoryLeakSeverity
  confidence_score :: real
  metrics :: MemoryMetrics
  detected_patterns :: "string list"
  suspicious_locations :: "location_row list"

subsection \<open>Event tables\<close>

text \<open>
  A row of the raw events table: its index (the timestamp) and the cells of the columns
  \<^verbatim>\<open>Event type\<close>, \<^verbatim>\<open>size\<close> and \<^verbatim>\<open>ptr\<close>. The size cell is taken as already numeric or
  missing, and the pointer cell as the text \<^verbatim>\<open>astype(str)\<close> yields for it. A cell is read
  only when the table has the column.
\<close>

record raw_event =
  raw_timestamp :: int
  raw_event_type :: "string option"
  raw_size :: "real option"
  raw_ptr :: string

record raw_table =
  columns :: "string list"
  raw_rows :: "raw_event list"

datatype event_category = other | allocation | deallocation

record mem_event =
  timestamp :: int
  event_type :: "string option"
  event_category :: event_category
  allocation_size :: "real option"
  ptr :: string

text \<open>A sample of the memory usage table: timestamp and value of \<^verbatim>\<open>Memory Usage\<close>.\<close>

type_synonym sample = "int \<times> real"

text \<open>A row of the pointer lifecycle table that the merge produces.\<close>

record lifecycle =
  lc_ptr :: string
  lc_event_type :: "string option"
  lc_size :: "real option"
  allocation_time :: int
  deallocation_time :: "int option"
  lifetime :: "real option"

text \<open>
  The module instance: the two entries of \<^verbatim>\<open>self.dataframes\<close> that the module reads
  (\<open>None\<close> when the key is absent), \<^verbatim>\<open>self.thresholds\<close> and \<^verbatim>\<open>self.ptr_lifecycle\<close>
  (\<open>None\<close> for a frame without columns).
\<close>

record module_state =
  events_table :: "mem_event list option"
  memory_usage :: "sample list option"
  thresholds :: MemoryThresholds
  ptr_lifecycle :: "lifecycle list option"

section \<open>Event classification\<close>

fun starts_with :: "string \<Rightarrow> string \<Rightarrow> bool" where
  "starts_with s [] = True"
| "starts_with [] (p # ps) = False"
| "starts_with (c # cs) (p # ps) = (c = p \<and> starts_with cs ps)"

fun str_contains :: "string \<Rightarrow> string \<Rightarrow> bool" where
  "str_contains [] pat = (pat = [])"
| "str_contains (c # cs) pat = (starts_with (c # cs) pat \<or> str_contains cs pat)"

text \<open>\<^verbatim>\<open>Series.str.contains(pat, na=False)\<close> on one cell; the patterns used have no
  regular-expression operator, so the match is a substring test.\<close>

definition contains_na_false :: "string option \<Rightarrow> string \<Rightarrow> bool" where
  "contains_na_false cell pat =
     (case cell of None \<Rightarrow> False | Some s \<Rightarrow> str_contains s pat)"

text \<open>The three assignments to \<^verbatim>\<open>event_category\<close>, in the order of the source.\<close>

definition categorize :: "string option \<Rightarrow> event_category" where
  "categorize cell =
     (let c = other;
          c = (if contains_na_false cell ''malloc'' then allocation else c);
          c = (if contains_na_false cell ''free'' then deallocation else c)
      in c)"

definition to_mem_event :: "raw_event \<Rightarrow> mem_event" where
  "to_mem_event r =
     \<lparr>timestamp = raw_timestamp r,
      event_type = raw_event_type r,
      event_category = categorize (raw_event_type r),
      allocation_size = raw_size r,
      ptr = raw_ptr r\<rparr>"

text \<open>
  \<^verbatim>\<open>_separate_events\<close>: classify, drop the rows of category \<^verbatim>\<open>other\<close>, rename and
  convert the columns. A column that the table lacks raises \<^verbatim>\<open>KeyError\<close>.
\<close>

definition separate_events :: "raw_table \<Rightarrow> fault + mem_event list" where
  "separate_events df =
     (if ''Event type'' \<notin> set (columns df) then Inl KeyError
      else if ''size'' \<notin> set (columns df) then Inl KeyError
      else if ''ptr'' \<notin> set (columns df) then Inl KeyError
      else Inr (filter (\<lambda>e. event_category e \<noteq> other) (map to_mem_event (raw_rows df))))"

text \<open>
  \<^verbatim>\<open>_post_process\<close> on the entry \<^verbatim>\<open>Events Table\<close> of \<^verbatim>\<open>self.dataframes\<close>: \<open>None\<close> when
  the key is absent. A table without the columns \<^verbatim>\<open>size\<close> and \<^verbatim>\<open>ptr\<close> is replaced by
  the empty frame.
\<close>

definition post_process :: "raw_table option \<Rightarrow> fault + mem_event list option" where
  "post_process entry =
     (case entry of
        None \<Rightarrow> Inr None
      | Some df \<Rightarrow>
          if \<not> list_all (\<lambda>col. col \<in> set (columns df)) [''size'', ''ptr''] then Inr (Some [])
          else if ''Event type'' \<notin> set (columns df) then Inl KeyError
          else Inr (Some (filter (\<lambda>e. event_category e \<noteq> other)
                            (map to_mem_event (raw_rows df)))))"

text \<open>\<^verbatim>\<open>DataFrame.empty\<close> of a table of the model.\<close>

definition frame_empty :: "'a list \<Rightarrow> bool" where
  "frame_empty df = (df = [])"

text \<open>The selection \<^verbatim>\<open>events_df[events_df["event_category"] == "allocation"]\<close> that every
  downstream component uses, and its counterpart for deallocations.\<close>

definition allocation_events :: "mem_event list \<Rightarrow> mem_event list" where
  "allocation_events df = filter (\<lambda>e. event_category e = allocation) df"

definition deallocation_events :: "mem_event list \<Rightarrow> mem_event list" where
  "deallocation_events df = filter (\<lambda>e. event_category e = deallocation) df"

section \<open>Pointer lifecycle tracking\<close>

text \<open>A row of \<^verbatim>\<open>allocation_records\<close>: an allocation event with its index copied into the
  column \<^verbatim>\<open>allocation_time\<close>.\<close>

record allocation_record =
  ar_ptr :: string
  ar_event_type :: "string option"
  ar_size :: "real option"
  ar_time :: int

definition to_allocation_record :: "mem_event \<Rightarrow> allocation_record" where
  "to_allocation_record e =
     \<lparr>ar_ptr = ptr e, ar_event_type = event_type e,
      ar_size = allocation_size e, ar_time = timestamp e\<rparr>"

text \<open>\<^verbatim>\<open>GroupBy.first\<close> on one column of one group: the first value that is not missing.\<close>

fun first_valid :: "'a option list \<Rightarrow> 'a option" where
  "first_valid [] = None"
| "first_valid (None # xs) = first_valid xs"
| "first_valid (Some v # xs) = Some v"

text \<open>
  \<^verbatim>\<open>allocation_records.groupby("ptr").first().reset_index()\<close>: one row per distinct
  pointer, the groups in sorted key order, every column reduced to its first value that is
  not missing, the rows of a group in table order. The index of an allocation is never
  missing, so \<^verbatim>\<open>allocation_time\<close> is the one of the first row of the group.
\<close>

definition group_first_row :: "allocation_record list \<Rightarrow> string \<Rightarrow> allocation_record list" where
  "group_first_row records key =
     (case filter (\<lambda>r. ar_ptr r = key) records of
        [] \<Rightarrow> []
      | r # rs \<Rightarrow>
          [\<lparr>ar_ptr = key,
            ar_event_type = first_valid (map ar_event_type (r # rs)),
            ar_size = first_valid (map ar_size (r # rs)),
            ar_time = ar_time r\<rparr>])"

definition groupby_ptr_first :: "allocation_record list \<Rightarrow> allocation_record list" where
  "groupby_ptr_first records =
     concat (map (group_first_row records) (sort (remdups (map ar_ptr records))))"

text \<open>\<^verbatim>\<open>any(allocation_records["ptr"].value_counts() > 1)\<close>.\<close>

definition has_duplicate_ptr :: "allocation_record list \<Rightarrow> bool" where
  "has_duplicate_ptr records =
     list_ex (\<lambda>p. count_list (map ar_ptr records) p > 1) (map ar_ptr records)"

text \<open>The check for duplicate allocations: when some pointer occurs more than once, the
  records are replaced by the first of every group.\<close>

definition keep_first_allocations :: "allocation_record list \<Rightarrow> allocation_record list" where
  "keep_first_allocations records =
     (if has_duplicate_ptr records then groupby_ptr_first records else records)"

text \<open>Seconds of a difference of timestamps, \<^verbatim>\<open>Timedelta.total_seconds()\<close>.\<close>

definition total_seconds :: "int \<Rightarrow> real" where
  "total_seconds ns = real_of_int ns / 10 ^ 9"

definition lifecycle_row :: "allocation_record \<Rightarrow> int option \<Rightarrow> lifecycle" where
  "lifecycle_row a d =
     \<lparr>lc_ptr = ar_ptr a, lc_event_type = ar_event_type a, lc_size = ar_size a,
      allocation_time = ar_time a, deallocation_time = d,
      lifetime = (case d of None \<Rightarrow> None
                  | Some t \<Rightarrow> Some (max 0 (total_seconds (t - ar_time a))))\<rparr>"

text \<open>
  The left merge on \<^verbatim>\<open>ptr\<close> followed by the lifetime columns: the allocation records in
  their order, each with one row for every deallocation event of the same pointer, in the
  order of the deallocations, and with one row without deallocation time when there is none.
  The rows of one allocation record come first, as a function of their own.
\<close>

definition merge_rows :: "allocation_record \<Rightarrow> mem_event list \<Rightarrow> lifecycle list" where
  "merge_rows a deallocations =
     (case filter (\<lambda>d. ptr d = ar_ptr a) deallocations of
        [] \<Rightarrow> [lifecycle_row a None]
      | d # ds \<Rightarrow> map (\<lambda>d'. lifecycle_row a (Some (timestamp d'))) (d # ds))"

definition merge_left :: "allocation_record list \<Rightarrow> mem_event list \<Rightarrow> lifecycle list" where
  "merge_left records deallocations =
     concat (map (\<lambda>a. merge_rows a deallocations) records)"

definition track_pointer_lifecycle ::
  "module_state \<Rightarrow> lifecycle list option \<times> module_state" where
  "track_pointer_lifecycle self =
     (case events_table self of
        None \<Rightarrow> (None, self)
      | Some events_df \<Rightarrow>
          if frame_empty events_df then (None, self)
          else
            let allocations = allocation_events events_df;
                deallocations = deallocation_events events_df;
                allocation_records = map to_allocation_record allocations;
                allocation_records = keep_first_allocations allocation_records;
                merged = merge_left allocation_records deallocations
            in (Some merged, self\<lparr>ptr_lifecycle := Some merged\<rparr>))"

section \<open>Trend analysis\<close>

text \<open>
  What the module calls outside this file is a parameter of the model: the normalisation
  of the data preprocessor, the rolling statistics, resampling and standard deviation of
  pandas, the linear regression of scipy (which may raise) and the text of the growth
  finding built with the formatter.
\<close>

record externals =
  normalize :: "sample list \<Rightarrow> sample list"
  rolling_mean :: "string \<Rightarrow> sample list \<Rightarrow> (int \<times> real) list"
  rolling_std :: "string \<Rightarrow> sample list \<Rightarrow> (int \<times> real option) list"
  linregress :: "real list \<Rightarrow> real list \<Rightarrow> fault + (real \<times> real \<times> real \<times> real)"
  resample_size :: "string \<Rightarrow> int list \<Rightarrow> real list"
  series_std :: "real list \<Rightarrow> real option"
  growth_finding :: "real \<Rightarrow> string"

record trend =
  slope :: real
  intercept :: real
  r_squared :: real
  p_value :: real
  growth_rate :: real
  is_significant :: bool
  trend_rolling_mean :: "(int \<times> real) list"
  trend_rolling_std :: "(int \<times> real option) list"

text \<open>\<^verbatim>\<open>_analyze_memory_trend\<close>; the result \<open>None\<close> is the empty dictionary.\<close>

definition analyze_memory_trend :: "externals \<Rightarrow> module_state \<Rightarrow> fault + trend option" where
  "analyze_memory_trend ext self =
     (case memory_usage self of
        None \<Rightarrow> Inr None
      | Some df \<Rightarrow>
          if frame_empty df then Inr None
          else
            case normalize ext df of
              [] \<Rightarrow> Inl IndexError
            | (t0, v0) # rest \<Rightarrow>
                let memory_df = (t0, v0) # rest;
                    time_seconds = map (\<lambda>(t, v). total_seconds (t - t0)) memory_df;
                    window = window_size (thresholds self);
                    rmean = rolling_mean ext window memory_df;
                    rstd = rolling_std ext window memory_df
                in case linregress ext time_seconds (map snd memory_df) of
                     Inl e \<Rightarrow> Inl e
                   | Inr (slope_v, intercept_v, r_value, p) \<Rightarrow>
                       let significant = p < 0.05;
                           is_increasing = slope_v > 0;
                           rate = (if is_increasing then slope_v else 0)
                       in Inr (Some \<lparr>slope = slope_v, intercept = intercept_v,
                                     r_squared = r_value ^ 2, p_value = p,
                                     growth_rate = rate, is_significant = significant,
                                     trend_rolling_mean = rmean,
                                     trend_rolling_std = rstd\<rparr>))"

section \<open>Allocation patterns\<close>

text \<open>The fields of the result that a caller reads; \<^verbatim>\<open>median_allocation_size\<close>,
  \<^verbatim>\<open>size_std\<close> and \<^verbatim>\<open>unique_sizes\<close> are read nowhere and are left out.\<close>

record allocation_patterns =
  allocation_frequency :: "real list"
  mean_allocation_size :: real
  pattern_total_allocations :: int
  null_size_count :: nat

text \<open>\<^verbatim>\<open>dropna\<close> on a column.\<close>

definition dropna :: "'a option list \<Rightarrow> 'a list" where
  "dropna xs = List.map_filter (\<lambda>x. x) xs"

definition analyze_allocation_patterns ::
  "externals \<Rightarrow> module_state \<Rightarrow> allocation_patterns option" where
  "analyze_allocation_patterns ext self =
     (case events_table self of
        None \<Rightarrow> None
      | Some events_df \<Rightarrow>
          if frame_empty events_df then None
          else
            let allocs = allocation_events events_df;
                null_sizes = length (filter (\<lambda>e. allocation_size e = None) allocs);
                allocation_freq =
                  resample_size ext (window_size (thresholds self)) (map timestamp allocs);
                valid_sizes = dropna (map allocation_size allocs)
            in Some \<lparr>allocation_frequency = allocation_freq,
                     mean_allocation_size =
                       (if \<not> frame_empty valid_sizes
                        then sum_list valid_sizes / real (length valid_sizes) else 0),
                     pattern_total_allocations = int (length allocs),
                     null_size_count = null_sizes\<rparr>)"

section \<open>Metrics\<close>

text \<open>\<^verbatim>\<open>rolling_mean.diff() > 0\<close>: the first difference is missing, and a comparison with a
  missing value is false.\<close>

definition growth_flags :: "real list \<Rightarrow> bool list" where
  "growth_flags values =
     (case values of
        [] \<Rightarrow> []
      | v # vs \<Rightarrow> False # map (\<lambda>(a, b). b - a > 0) (zip values vs))"

text \<open>\<^verbatim>\<open>growth_periods != growth_periods.shift()\<close>: the shifted series starts with a missing
  value, which differs from everything.\<close>

definition changed_flags :: "bool list \<Rightarrow> bool list" where
  "changed_flags flags =
     (case flags of
        [] \<Rightarrow> []
      | f # fs \<Rightarrow> True # map (\<lambda>(a, b). b \<noteq> a) (zip flags fs))"

fun cumsum :: "nat \<Rightarrow> bool list \<Rightarrow> nat list" where
  "cumsum acc [] = []"
| "cumsum acc (b # bs) = (acc + (if b then 1 else 0)) # cumsum (acc + (if b then 1 else 0)) bs"

text \<open>\<^verbatim>\<open>groupby\<close> on a key series: the groups in sorted key order, the rows of a group in
  table order.\<close>

definition groupby_keys :: "nat list \<Rightarrow> 'a list \<Rightarrow> 'a list list" where
  "groupby_keys keys table_rows =
     map (\<lambda>k. map snd (filter (\<lambda>(k', r). k' = k) (zip keys table_rows)))
         (sort (remdups keys))"

text \<open>The function applied to every group: the seconds between the last and the first
  index of the group when it has more than one row, else 0.\<close>

definition group_span :: "(int \<times> bool) list \<Rightarrow> real" where
  "group_span x =
     (if length x > 1 then total_seconds (fst (last x) - fst (hd x)) else 0)"

text \<open>\<^verbatim>\<open>Series.max()\<close>; \<open>None\<close> for the NaN of an empty series.\<close>

fun series_max :: "real list \<Rightarrow> real option" where
  "series_max [] = None"
| "series_max (x # xs) = Some (fold max xs x)"

definition max_growth_duration :: "(int \<times> real) list \<Rightarrow> real option" where
  "max_growth_duration rmean =
     (let growth_periods = growth_flags (map snd rmean);
          keys = cumsum 0 (changed_flags growth_periods);
          consecutive_periods = groupby_keys keys (zip (map fst rmean) growth_periods)
      in series_max (map group_span consecutive_periods))"

definition is_unreleased :: "lifecycle \<Rightarrow> bool" where
  "is_unreleased r = (deallocation_time r = None)"

text \<open>\<^verbatim>\<open>_calculate_memory_metrics\<close>. A lifecycle table without columns, an empty trend
  dictionary and an empty pattern dictionary raise \<^verbatim>\<open>KeyError\<close> where they are read.\<close>

definition calculate_memory_metrics ::
  "lifecycle list option \<Rightarrow> trend option \<Rightarrow> allocation_patterns option \<Rightarrow> fault + MemoryMetrics"
  where
  "calculate_memory_metrics ptr_tracking memory_trend patterns =
     (case ptr_tracking of
        None \<Rightarrow> Inl KeyError
      | Some tracking \<Rightarrow>
          let unreleased = length (filter is_unreleased tracking);
              fragmentation_score =
                (if \<not> frame_empty tracking
                 then (let allocated_chunks = length tracking;
                           concurrent_chunks = length (filter is_unreleased tracking)
                       in if allocated_chunks > 0
                          then real concurrent_chunks / real allocated_chunks else 0)
                 else 0)
          in case memory_trend of
               None \<Rightarrow> Inl KeyError
             | Some tr \<Rightarrow>
                 (case max_growth_duration (trend_rolling_mean tr) of
                    None \<Rightarrow> Inl NotANumber
                  | Some duration \<Rightarrow>
                      (case patterns of
                         None \<Rightarrow> Inl KeyError
                       | Some pat \<Rightarrow>
                           Inr \<lparr>unreleased_allocations = int unreleased,
                                total_allocations = pattern_total_allocations pat,
                                leak_rate = growth_rate tr,
                                avg_allocation_size = mean_allocation_size pat,
                                max_continuous_growth_duration = duration,
                                memory_fragmentation_score = fragmentation_score,
                                regression_slope = slope tr,
                                regression_intercept = intercept tr\<rparr>)))"

section \<open>Severity evaluation\<close>

text \<open>Python's \<^verbatim>\<open>/\<close> on numbers: a zero divisor raises.\<close>

definition true_div :: "real \<Rightarrow> real \<Rightarrow> fault + real" where
  "true_div a b = (if b = 0 then Inl ZeroDivisionError else Inr (a / b))"

text \<open>\<^verbatim>\<open>_evaluate_severity\<close>, statement by statement.\<close>

definition evaluate_severity ::
  "module_state \<Rightarrow> MemoryMetrics \<Rightarrow> real \<Rightarrow> fault + (MemoryLeakSeverity \<times> real)" where
  "evaluate_severity self m p =
     (case true_div (leak_rate m) (growth_slope (thresholds self)) of
        Inl e \<Rightarrow> Inl e
      | Inr q1 \<Rightarrow>
     (case true_div (real_of_int (unreleased_allocations m)) (real_of_int (total_allocations m)) of
        Inl e \<Rightarrow> Inl e
      | Inr q2 \<Rightarrow>
     (case true_div (memory_fragmentation_score m) (fragmentation (thresholds self)) of
        Inl e \<Rightarrow> Inl e
      | Inr q3 \<Rightarrow>
          let growth_score = min 1 q1;
              unreleased_score = min 1 q2;
              fragmentation_score = min 1 q3;
              weighted_score =
                0.4 * growth_score + 0.4 * unreleased_score + 0.2 * fragmentation_score;
              confidence =
                min 1 (0.6 * (1 - p) + 0.4 * real_of_int (total_allocations m));
              sev = (if weighted_score < 0.2 then NONE
                     else if weighted_score < 0.4 then LOW
                     else if weighted_score < 0.6 then MEDIUM
                     else if weighted_score < 0.8 then HIGH
                     else CRITICAL)
          in Inr (sev, confidence))))"

text \<open>The value that \<^verbatim>\<open>auto()\<close> gives each member of the enumeration.\<close>

fun severity_value :: "MemoryLeakSeverity \<Rightarrow> nat" where
  "severity_value NONE = 1"
| "severity_value LOW = 2"
| "severity_value MEDIUM = 3"
| "severity_value HIGH = 4"
| "severity_value CRITICAL = 5"

section \<open>Suspicious locations and narrated patterns\<close>

definition location_group :: "mem_event list \<Rightarrow> string \<Rightarrow> location_row" where
  "location_group allocs key =
     (let g = filter (\<lambda>e. ptr e = key) allocs
      in \<lparr>loc_ptr = key,
          total_bytes = sum_list (dropna (map allocation_size g)),
          allocation_count = length (dropna (map allocation_size g)),
          event_context = first_valid (map event_type g)\<rparr>)"

text \<open>\<^verbatim>\<open>_identify_suspicious_locations\<close>. The rows are sorted by descending
  \<^verbatim>\<open>total_bytes\<close>; pandas leaves the order of rows with equal totals open, the model keeps
  them in key order.\<close>

definition identify_suspicious_locations ::
  "module_state \<Rightarrow> lifecycle list option \<Rightarrow> fault + location_row list" where
  "identify_suspicious_locations self ptr_tracking =
     (case events_table self of
        None \<Rightarrow> Inr []
      | Some events_df \<Rightarrow>
          if frame_empty events_df then Inr []
          else
            case ptr_tracking of
              None \<Rightarrow> Inl KeyError
            | Some tracking \<Rightarrow>
                let unfreed_ptrs = map lc_ptr (filter is_unreleased tracking);
                    suspicious_allocs =
                      filter (\<lambda>e. event_category e = allocation \<and> ptr e \<in> set unfreed_ptrs)
                        events_df;
                    location_metrics =
                      map (location_group suspicious_allocs)
                        (sort (remdups (map ptr suspicious_allocs)))
                in Inr (sort_key (\<lambda>r. - total_bytes r) location_metrics))"

text \<open>\<^verbatim>\<open>Series.mean()\<close>; \<open>None\<close> for the NaN of a series without values.\<close>

definition series_mean :: "real list \<Rightarrow> real option" where
  "series_mean xs = (if xs = [] then None else Some (sum_list xs / real (length xs)))"

text \<open>A comparison \<^verbatim>\<open>a > b\<close> in which either side may be NaN.\<close>

definition gt_nan :: "real option \<Rightarrow> real option \<Rightarrow> bool" where
  "gt_nan a b = (case (a, b) of (Some x, Some y) \<Rightarrow> x > y | _ \<Rightarrow> False)"

definition collect_detected_patterns ::
  "externals \<Rightarrow> trend option \<Rightarrow> allocation_patterns option \<Rightarrow> fault + string list" where
  "collect_detected_patterns ext memory_trend patterns =
     (case memory_trend of
        None \<Rightarrow> Inl KeyError
      | Some tr \<Rightarrow>
          let found1 = (if is_significant tr \<and> slope tr > 0
                        then [growth_finding ext (growth_rate tr)] else [])
          in case patterns of
               None \<Rightarrow> Inl KeyError
             | Some pat \<Rightarrow>
                 let found2 =
                       (if gt_nan (series_std ext (allocation_frequency pat))
                                  (series_mean (allocation_frequency pat))
                        then found1 @ [''Irregular allocation pattern detected'']
                        else found1);
                     found3 =
                       (if gt_nan (series_mean (dropna (map snd (trend_rolling_std tr))))
                                  (map_option (\<lambda>v. v * 0.1)
                                     (series_mean (map snd (trend_rolling_mean tr))))
                        then found2 @ [''High memory usage volatility detected'']
                        else found2)
                 in Inr found3)"

section \<open>The analysis and its presentation\<close>

definition neutral_metrics :: MemoryMetrics where
  "neutral_metrics =
     \<lparr>unreleased_allocations = 0, total_allocations = 0, leak_rate = 0,
      avg_allocation_size = 0, max_continuous_growth_duration = 0,
      memory_fragmentation_score = 0, regression_slope = 0, regression_intercept = 0\<rparr>"

text \<open>\<^verbatim>\<open>self.dataframes.get(key) is None or self.dataframes[key].empty\<close>.\<close>

definition missing_or_empty :: "'a list option \<Rightarrow> bool" where
  "missing_or_empty entry = (case entry of None \<Rightarrow> True | Some df \<Rightarrow> frame_empty df)"

text \<open>\<^verbatim>\<open>analyze_memory_leaks\<close>: the result and the module instance after the call.\<close>

definition analyze_memory_leaks ::
  "externals \<Rightarrow> module_state \<Rightarrow> string \<Rightarrow> real \<Rightarrow> real \<Rightarrow>
     fault + (LeakAnalysisResult \<times> module_state)" where
  "analyze_memory_leaks ext self window fragmentation_threshold slope_threshold =
     (if list_ex (\<lambda>b. b) [missing_or_empty (events_table self),
                           missing_or_empty (memory_usage self)]
      then Inr (\<lparr>severity = NONE, confidence_score = 0, metrics = neutral_metrics,
                 detected_patterns = [], suspicious_locations = []\<rparr>, self)
      else
        let self = self\<lparr>thresholds :=
                     \<lparr>window_size = window, fragmentation = fragmentation_threshold,
                      growth_slope = slope_threshold\<rparr>\<rparr>;
            (ptr_tracking, self) = track_pointer_lifecycle self
        in case analyze_memory_trend ext self of
             Inl e \<Rightarrow> Inl e
           | Inr memory_trend \<Rightarrow>
        let patterns = analyze_allocation_patterns ext self
        in case calculate_memory_metrics ptr_tracking memory_trend patterns of
             Inl e \<Rightarrow> Inl e
           | Inr m \<Rightarrow>
        (case memory_trend of
           None \<Rightarrow> Inl KeyError
         | Some tr \<Rightarrow>
        (case evaluate_severity self m (p_value tr) of
           Inl e \<Rightarrow> Inl e
         | Inr (sev, confidence) \<Rightarrow>
        (case identify_suspicious_locations self ptr_tracking of
           Inl e \<Rightarrow> Inl e
         | Inr suspicious_locs \<Rightarrow>
        (case collect_detected_patterns ext memory_trend patterns of
           Inl e \<Rightarrow> Inl e
         | Inr found \<Rightarrow>
             Inr (\<lparr>severity = sev, confidence_score = confidence, metrics = m,
                   detected_patterns = found, suspicious_locations = suspicious_locs\<rparr>,
                  self))))))"

text \<open>
  \<^verbatim>\<open>interpret\<close> (a reserved word of Isabelle, hence the longer name): the document it writes is outside the model; what remains is the
  result object and the module instance after the call, and the \<^verbatim>\<open>KeyError\<close> of reading
  a table that is absent or a lifecycle table without columns.
\<close>

definition interpret_analysis ::
  "module_state \<Rightarrow> LeakAnalysisResult \<Rightarrow> fault + (LeakAnalysisResult \<times> module_state)" where
  "interpret_analysis self analysis_result =
     (case memory_usage self of
        None \<Rightarrow> Inl KeyError
      | Some memory_df \<Rightarrow>
          (case events_table self of
             None \<Rightarrow> Inl KeyError
           | Some events_df \<Rightarrow>
               (case track_pointer_lifecycle self of
                  (None, self') \<Rightarrow> Inl KeyError
                | (Some ptr_tracking, self') \<Rightarrow> Inr (analysis_result, self'))))"

text \<open>
  \<^verbatim>\<open>plot_memory_leak_analysis\<close>: the figures are outside the model; what remains is the
  result object, whose metrics the method assigns to, and the module instance after the
  call.
\<close>

definition plot_memory_leak_analysis ::
  "module_state \<Rightarrow> LeakAnalysisResult \<Rightarrow> LeakAnalysisResult \<times> module_state" where
  "plot_memory_leak_analysis self analysis_result =
     (let memory_df = (case memory_usage self of None \<Rightarrow> [] | Some df \<Rightarrow> df);
          events_df = (case events_table self of None \<Rightarrow> [] | Some df \<Rightarrow> df);
          analysis_result =
            (if \<not> frame_empty memory_df
             then (case series_max (map snd memory_df) of
                     None \<Rightarrow> analysis_result
                   | Some peak \<Rightarrow>
                       let r1 = analysis_result\<lparr>metrics := (metrics analysis_result)
                                  \<lparr>regression_intercept :=
                                     regression_intercept (metrics analysis_result) * peak\<rparr>\<rparr>;
                           r2 = r1\<lparr>metrics := (metrics r1)
                                  \<lparr>regression_slope :=
                                     regression_slope (metrics r1) * peak\<rparr>\<rparr>
                       in r2)
             else analysis_result);
          self = (if \<not> frame_empty events_df
                  then snd (track_pointer_lifecycle self) else self)
      in (analysis_result, self))"

section \<open>The specification's formulas\<close>

text \<open>The weighted score and the confidence as the specification words them, to be
  compared with \<^const>\<open>evaluate_severity\<close>.\<close>

definition spec_weighted_score :: "MemoryThresholds \<Rightarrow> MemoryMetrics \<Rightarrow> real" where
  "spec_weighted_score th m =
     0.4 * min 1 (leak_rate m / growth_slope th)
     + 0.4 * min 1 (real_of_int (unreleased_allocations m) / real_of_int (total_allocations m))
     + 0.2 * min 1 (memory_fragmentation_score m / fragmentation th)"

definition clamp :: "real \<Rightarrow> real \<Rightarrow> real \<Rightarrow> real" where
  "clamp x lo hi = max lo (min hi x)"

definition spec_confidence :: "real \<Rightarrow> int \<Rightarrow> real" where
  "spec_confidence p n = clamp (0.6 * (1 - p) + 0.4 * real_of_int n) 0 1"

section \<open>Concrete tables\<close>

text \<open>
  An instance of the external functions for evaluating the model on concrete tables. The
  normalisation divides by the maximum of the series. The
  regression is the one of the series \<open>0, 1, 0, 1\<close> sampled at seconds \<open>0, 1, 2, 3\<close>:
  least squares give slope \<open>0.2\<close> and intercept \<open>0.2\<close>, the correlation is \<open>1/\<surd>5\<close> and
  the two-sided p-value \<open>1 - 1/\<surd>5\<close>, here rounded to four places. The other functions
  are the simplest of their type.
\<close>

definition example_externals :: externals where
  "example_externals =
     \<lparr>normalize = (\<lambda>df. case series_max (map snd df) of
                              None \<Rightarrow> df
                            | Some peak \<Rightarrow> map (\<lambda>(t, v). (t, v / peak)) df),
      rolling_mean = (\<lambda>w df. df),
      rolling_std = (\<lambda>w df. map (\<lambda>(t, v). (t, None)) df),
      linregress = (\<lambda>xs ys. Inr (0.2, 0.2, 0.4472, 0.5528)),
      resample_size = (\<lambda>w ts. [real (length ts)]),
      series_std = (\<lambda>xs. None),
      growth_finding = (\<lambda>r. ''Systematic memory growth detected'')\<rparr>"

definition example_memory :: "sample list" where
  "example_memory = [(0, 0), (1000000000, 1), (2000000000, 0), (3000000000, 1)]"

text \<open>The same series in bytes: its normalisation is \<^const>\<open>example_memory\<close>.\<close>

definition example_memory_bytes :: "sample list" where
  "example_memory_bytes =
     [(0, 0), (1000000000, 2048), (2000000000, 0), (3000000000, 2048)]"

definition example_event :: "int \<Rightarrow> string \<Rightarrow> event_category \<Rightarrow> string \<Rightarrow> mem_event" where
  "example_event t name cat p =
     \<lparr>timestamp = t, event_type = Some name, event_category = cat,
      allocation_size = (if cat = allocation then Some 16 else None), ptr = p\<rparr>"

definition example_state :: "mem_event list option \<Rightarrow> sample list option \<Rightarrow> module_state" where
  "example_state events samples =
     \<lparr>events_table = events, memory_usage = samples,
      thresholds = default_thresholds, ptr_lifecycle = None\<rparr>"




text \<open>A module instance with one allocation that is never released.\<close>

definition example_leak_state :: module_state where
  "example_leak_state =
     example_state (Some [example_event 0 ''malloc'' allocation ''0x1''])
       (Some example_memory_bytes)"

section \<open>Insufficient data\<close>

lemma post_process_missing_columns:
  "''size'' \<notin> set (columns df) \<or> ''ptr'' \<notin> set (columns df)
     \<Longrightarrow> post_process (Some df) = Inr (Some [])"
  by (auto simp: post_process_def)

text \<open>
  Claim C1. When the events table is missing or empty, or the memory usage table is
  missing or empty, \<^const>\<open>analyze_memory_leaks\<close> raises nothing and returns the neutral
  result: severity \<open>NONE\<close>, confidence 0, the eight metrics 0, no pattern and no
  suspicious location. This covers the raw events table without the column \<^verbatim>\<open>size\<close> or
  \<^verbatim>\<open>ptr\<close>, which \<^const>\<open>post_process\<close> replaces by the empty frame. The module instance
  is left as it was.
\<close>

theorem insufficient_data_neutral_result:
  assumes "missing_or_empty (events_table self) \<or> missing_or_empty (memory_usage self)
           \<or> ((''size'' \<notin> set (columns raw) \<or> ''ptr'' \<notin> set (columns raw))
               \<and> post_process (Some raw) = Inr (events_table self))"
  shows "analyze_memory_leaks ext self window fragmentation_threshold slope_threshold =
           Inr (\<lparr>severity = NONE, confidence_score = 0,
                 metrics = \<lparr>unreleased_allocations = 0, total_allocations = 0, leak_rate = 0,
                            avg_allocation_size = 0, max_continuous_growth_duration = 0,
                            memory_fragmentation_score = 0, regression_slope = 0,
                            regression_intercept = 0\<rparr>,
                 detected_patterns = [], suspicious_locations = []\<rparr>, self)"
proof -
  have "missing_or_empty (events_table self) \<or> missing_or_empty (memory_usage self)"
  proof (cases "missing_or_empty (events_table self) \<or> missing_or_empty (memory_usage self)")
    case True
    then show ?thesis .
  next
    case False
    with assms have c: "''size'' \<notin> set (columns raw) \<or> ''ptr'' \<notin> set (columns raw)"
      and p: "post_process (Some raw) = Inr (events_table self)" by auto
    from post_process_missing_columns[OF c] p have "events_table self = Some []" by simp
    then show ?thesis by (simp add: missing_or_empty_def frame_empty_def)
  qed
  then show ?thesis
    by (auto simp add: analyze_memory_leaks_def neutral_metrics_def)
qed

theorem insufficient_data_neutral_result_witness:
  "post_process (Some \<lparr>columns = [''Event type'', ''ptr''],
                       raw_rows = [\<lparr>raw_timestamp = 0, raw_event_type = Some ''malloc'',
                                    raw_size = None, raw_ptr = ''0x1''\<rparr>]\<rparr>)
     = Inr (events_table (example_state (Some []) (Some example_memory)))
   \<and> analyze_memory_leaks example_externals (example_state (Some []) (Some example_memory))
        ''1s'' 0.7 0.5 =
           Inr (\<lparr>severity = NONE, confidence_score = 0,
                 metrics = \<lparr>unreleased_allocations = 0, total_allocations = 0, leak_rate = 0,
                            avg_allocation_size = 0, max_continuous_growth_duration = 0,
                            memory_fragmentation_score = 0, regression_slope = 0,
                            regression_intercept = 0\<rparr>,
                 detected_patterns = [], suspicious_locations = []\<rparr>,
                example_state (Some []) (Some example_memory))"
proof -
  let ?raw = "\<lparr>columns = [''Event type'', ''ptr''],
                raw_rows = [\<lparr>raw_timestamp = 0, raw_event_type = Some ''malloc'',
                             raw_size = None, raw_ptr = ''0x1''\<rparr>]\<rparr>"
  let ?self = "example_state (Some []) (Some example_memory)"
  have p: "post_process (Some ?raw) = Inr (events_table ?self)"
    by (simp add: post_process_def example_state_def)
  have c: "''size'' \<notin> set (columns ?raw) \<or> ''ptr'' \<notin> set (columns ?raw)" by simp
  from c p have h: "missing_or_empty (events_table ?self)
      \<or> missing_or_empty (memory_usage ?self)
      \<or> ((''size'' \<notin> set (columns ?raw) \<or> ''ptr'' \<notin> set (columns ?raw))
          \<and> post_process (Some ?raw) = Inr (events_table ?self))"
    by blast
  show ?thesis
    using p insufficient_data_neutral_result[OF h, of example_externals "''1s''" "0.7" "0.5"]
    by simp
qed

section \<open>Division by a zero allocation count\<close>

text \<open>
  Claim C3. The claim asks that a metrics record with \<open>total_allocations = 0\<close> gives an
  unreleased score of 0 without an arithmetic fault. The evaluator divides by the count
  unguarded: on the all-zero metrics with the default thresholds it raises
  \<^verbatim>\<open>ZeroDivisionError\<close>.
\<close>

theorem zero_total_allocations_raises:
  "evaluate_severity (example_state None None)
     \<lparr>unreleased_allocations = 0, total_allocations = 0, leak_rate = 0,
      avg_allocation_size = 0, max_continuous_growth_duration = 0,
      memory_fragmentation_score = 0, regression_slope = 0, regression_intercept = 0\<rparr> 0.5
   = Inl ZeroDivisionError"
  by (simp add: evaluate_severity_def example_state_def default_thresholds_def true_div_def)

section \<open>Maximum continuous growth duration\<close>

text \<open>
  Claim C6. The claim asks that only runs of increasing rolling mean contribute to the
  maximum. The grouping also forms the runs where the mean does not increase, and the
  span of every group enters the maximum: a rolling mean that falls from 3 to 1 over two
  seconds has growth duration 2.
\<close>

theorem decreasing_mean_counts_as_growth:
  "max_growth_duration [(0, 3), (1000000000, 2), (2000000000, 1)] = Some 2"
  by (simp add: max_growth_duration_def growth_flags_def changed_flags_def groupby_keys_def
      group_span_def total_seconds_def)

section \<open>Rows naming both malloc and free\<close>

lemma categorize_free:
  "contains_na_false cell ''free'' \<Longrightarrow> categorize cell = deallocation"
  by (simp add: categorize_def)

lemma classified_row:
  assumes "e \<in> set (filter (\<lambda>e. event_category e \<noteq> other) (map to_mem_event rs))"
  shows "event_category e = categorize (event_type e)"
proof -
  from assms obtain r where "e = to_mem_event r" by auto
  then show ?thesis by (simp add: to_mem_event_def)
qed

lemma post_process_rows:
  assumes "post_process (Some df) = Inr (Some events)" and "e \<in> set events"
  shows "event_category e = categorize (event_type e)"
proof (cases "list_all (\<lambda>col. col \<in> set (columns df)) [''size'', ''ptr'']")
  case False
  with assms(1) have "events = []" by (simp add: post_process_def)
  with assms(2) show ?thesis by simp
next
  case True
  with assms(1) have
    "events = filter (\<lambda>e. event_category e \<noteq> other) (map to_mem_event (raw_rows df))"
    by (simp add: post_process_def split: if_splits)
  with assms(2) show ?thesis using classified_row by blast
qed

lemma separate_events_rows:
  assumes "separate_events df = Inr events" and "e \<in> set events"
  shows "event_category e = categorize (event_type e)"
proof -
  from assms(1) have
    "events = filter (\<lambda>e. event_category e \<noteq> other) (map to_mem_event (raw_rows df))"
    by (simp add: separate_events_def split: if_splits)
  with assms(2) show ?thesis using classified_row by blast
qed

lemma not_among_allocations:
  "event_category e = deallocation \<Longrightarrow> e \<notin> set (allocation_events events)"
  by (simp add: allocation_events_def)

lemma post_process_keeps:
  assumes "''size'' \<in> set (columns df)" "''ptr'' \<in> set (columns df)"
    "''Event type'' \<in> set (columns df)"
  shows "post_process (Some df) =
           Inr (Some (filter (\<lambda>e. event_category e \<noteq> other) (map to_mem_event (raw_rows df))))"
  using assms by (simp add: post_process_def)

lemma separate_events_keeps:
  assumes "''size'' \<in> set (columns df)" "''ptr'' \<in> set (columns df)"
    "''Event type'' \<in> set (columns df)"
  shows "separate_events df =
           Inr (filter (\<lambda>e. event_category e \<noteq> other) (map to_mem_event (raw_rows df)))"
  using assms by (simp add: separate_events_def)

lemma free_row_kept:
  assumes "r \<in> set (raw_rows df)" and "raw_event_type r = Some s"
    and "categorize (Some s) = deallocation"
  shows "\<lparr>timestamp = raw_timestamp r, event_type = Some s, event_category = deallocation,
          allocation_size = raw_size r, ptr = raw_ptr r\<rparr>
         \<in> set (filter (\<lambda>e. event_category e \<noteq> other) (map to_mem_event (raw_rows df)))"
proof -
  have "to_mem_event r = \<lparr>timestamp = raw_timestamp r, event_type = Some s,
          event_category = deallocation, allocation_size = raw_size r, ptr = raw_ptr r\<rparr>"
    using assms(2,3) by (simp add: to_mem_event_def)
  moreover have "to_mem_event r \<in> set (map to_mem_event (raw_rows df))"
    using assms(1) by simp
  ultimately show ?thesis by simp
qed

lemma among_deallocations:
  "e \<in> set events \<Longrightarrow> event_category e = deallocation \<Longrightarrow> e \<in> set (deallocation_events events)"
  by (simp add: deallocation_events_def)

text \<open>
  Claim C10. A row whose event type contains both \<^verbatim>\<open>malloc\<close> and \<^verbatim>\<open>free\<close> ends in the
  category deallocation: \<^const>\<open>post_process\<close> and \<^const>\<open>separate_events\<close> alike keep
  the row, with the category deallocation, among the deallocation events of their result,
  and no row of that event type in their result is among the allocation events that the
  downstream components select.
\<close>

theorem both_markers_deallocation:
  assumes "str_contains s ''malloc''" and "str_contains s ''free''"
  shows "categorize (Some s) = deallocation
    \<and> (\<forall>df r. ''size'' \<in> set (columns df) \<longrightarrow> ''ptr'' \<in> set (columns df)
          \<longrightarrow> ''Event type'' \<in> set (columns df)
          \<longrightarrow> r \<in> set (raw_rows df) \<longrightarrow> raw_event_type r = Some s
          \<longrightarrow> (\<exists>events. post_process (Some df) = Inr (Some events)
                \<and> \<lparr>timestamp = raw_timestamp r, event_type = Some s,
                    event_category = deallocation, allocation_size = raw_size r,
                    ptr = raw_ptr r\<rparr> \<in> set (deallocation_events events)))
    \<and> (\<forall>df r. ''size'' \<in> set (columns df) \<longrightarrow> ''ptr'' \<in> set (columns df)
          \<longrightarrow> ''Event type'' \<in> set (columns df)
          \<longrightarrow> r \<in> set (raw_rows df) \<longrightarrow> raw_event_type r = Some s
          \<longrightarrow> (\<exists>events. separate_events df = Inr events
                \<and> \<lparr>timestamp = raw_timestamp r, event_type = Some s,
                    event_category = deallocation, allocation_size = raw_size r,
                    ptr = raw_ptr r\<rparr> \<in> set (deallocation_events events)))
    \<and> (\<forall>df events e. post_process (Some df) = Inr (Some events) \<longrightarrow> e \<in> set events
          \<longrightarrow> event_type e = Some s
          \<longrightarrow> event_category e = deallocation \<and> e \<notin> set (allocation_events events))
    \<and> (\<forall>df events e. separate_events df = Inr events \<longrightarrow> e \<in> set events
          \<longrightarrow> event_type e = Some s
          \<longrightarrow> event_category e = deallocation \<and> e \<notin> set (allocation_events events))"
proof -
  have free: "contains_na_false (Some s) ''free''"
    using assms(2) by (simp add: contains_na_false_def)
  have a: "categorize (Some s) = deallocation"
    using free by (rule categorize_free)
  have k: "\<lparr>timestamp = raw_timestamp r, event_type = Some s, event_category = deallocation,
             allocation_size = raw_size r, ptr = raw_ptr r\<rparr>
           \<in> set (deallocation_events
                (filter (\<lambda>e. event_category e \<noteq> other) (map to_mem_event (raw_rows df))))"
    if "r \<in> set (raw_rows df)" "raw_event_type r = Some s" for df r
    by (rule among_deallocations[OF free_row_kept[OF that a]]) simp
  have p: "\<exists>events. post_process (Some df) = Inr (Some events)
                \<and> \<lparr>timestamp = raw_timestamp r, event_type = Some s,
                    event_category = deallocation, allocation_size = raw_size r,
                    ptr = raw_ptr r\<rparr> \<in> set (deallocation_events events)"
    if "''size'' \<in> set (columns df)" "''ptr'' \<in> set (columns df)"
      "''Event type'' \<in> set (columns df)" "r \<in> set (raw_rows df)" "raw_event_type r = Some s"
    for df r
    using post_process_keeps[OF that(1,2,3)] k[OF that(4,5)] by blast
  have q: "\<exists>events. separate_events df = Inr events
                \<and> \<lparr>timestamp = raw_timestamp r, event_type = Some s,
                    event_category = deallocation, allocation_size = raw_size r,
                    ptr = raw_ptr r\<rparr> \<in> set (deallocation_events events)"
    if "''size'' \<in> set (columns df)" "''ptr'' \<in> set (columns df)"
      "''Event type'' \<in> set (columns df)" "r \<in> set (raw_rows df)" "raw_event_type r = Some s"
    for df r
    using separate_events_keeps[OF that(1,2,3)] k[OF that(4,5)] by blast
  have b: "event_category e = deallocation \<and> e \<notin> set (allocation_events events)"
    if "post_process (Some df) = Inr (Some events)" "e \<in> set events" "event_type e = Some s"
    for df events e
    using post_process_rows[OF that(1,2)] that(3) a not_among_allocations by simp
  have c: "event_category e = deallocation \<and> e \<notin> set (allocation_events events)"
    if "separate_events df = Inr events" "e \<in> set events" "event_type e = Some s"
    for df events e
    using separate_events_rows[OF that(1,2)] that(3) a not_among_allocations by simp
  show ?thesis
    apply (intro conjI allI impI)
    subgoal by (rule a)
    subgoal for df r by (rule p)
    subgoal for df r by (rule q)
    subgoal for df events e using b by blast
    subgoal for df events e using b by blast
    subgoal for df events e using c by blast
    subgoal for df events e using c by blast
    done
qed

theorem both_markers_deallocation_witness:
  "str_contains ''free_after_malloc'' ''malloc'' \<and> str_contains ''free_after_malloc'' ''free''
   \<and> categorize (Some ''free_after_malloc'') = deallocation
   \<and> post_process (Some \<lparr>columns = [''Event type'', ''size'', ''ptr''],
                         raw_rows = [\<lparr>raw_timestamp = 0,
                                      raw_event_type = Some ''free_after_malloc'',
                                      raw_size = Some 8, raw_ptr = ''0x1''\<rparr>]\<rparr>)
       = Inr (Some [\<lparr>timestamp = 0, event_type = Some ''free_after_malloc'',
                     event_category = deallocation, allocation_size = Some 8,
                     ptr = ''0x1''\<rparr>])
   \<and> separate_events \<lparr>columns = [''Event type'', ''size'', ''ptr''],
                       raw_rows = [\<lparr>raw_timestamp = 0,
                                    raw_event_type = Some ''free_after_malloc'',
                                    raw_size = Some 8, raw_ptr = ''0x1''\<rparr>]\<rparr>
       = Inr [\<lparr>timestamp = 0, event_type = Some ''free_after_malloc'',
               event_category = deallocation, allocation_size = Some 8,
               ptr = ''0x1''\<rparr>]
   \<and> deallocation_events [\<lparr>timestamp = 0, event_type = Some ''free_after_malloc'',
                     event_category = deallocation, allocation_size = Some 8,
                     ptr = ''0x1''\<rparr>]
       = [\<lparr>timestamp = 0, event_type = Some ''free_after_malloc'',
                     event_category = deallocation, allocation_size = Some 8,
                     ptr = ''0x1''\<rparr>]
   \<and> allocation_events [\<lparr>timestamp = 0, event_type = Some ''free_after_malloc'',
                     event_category = deallocation, allocation_size = Some 8,
                     ptr = ''0x1''\<rparr>] = []"
proof -
  define r where "r = \<lparr>raw_timestamp = 0, raw_event_type = Some ''free_after_malloc'',
                       raw_size = Some 8, raw_ptr = ''0x1''\<rparr>"
  define df where "df = \<lparr>columns = [''Event type'', ''size'', ''ptr''], raw_rows = [r]\<rparr>"
  define row where "row = \<lparr>timestamp = 0, event_type = Some ''free_after_malloc'',
                     event_category = deallocation, allocation_size = Some (8::real),
                     ptr = ''0x1''\<rparr>"
  have m: "str_contains ''free_after_malloc'' ''malloc''" by simp
  have f: "str_contains ''free_after_malloc'' ''free''" by simp
  note th = both_markers_deallocation[OF m f]
  have cat: "categorize (Some ''free_after_malloc'') = deallocation"
    by (rule th[THEN conjunct1])
  have cols: "''size'' \<in> set (columns df)" "''ptr'' \<in> set (columns df)"
    "''Event type'' \<in> set (columns df)" "r \<in> set (raw_rows df)"
    "raw_event_type r = Some ''free_after_malloc''"
    by (simp_all add: df_def r_def)
  have rr: "\<lparr>timestamp = raw_timestamp r, event_type = Some ''free_after_malloc'',
             event_category = deallocation, allocation_size = raw_size r,
             ptr = raw_ptr r\<rparr> = row"
    by (simp add: r_def row_def)
  from th[THEN conjunct2, THEN conjunct1, rule_format, OF cols]
  obtain events where pe: "post_process (Some df) = Inr (Some events)"
    and pin: "row \<in> set (deallocation_events events)" unfolding rr by blast
  from th[THEN conjunct2, THEN conjunct2, THEN conjunct1, rule_format, OF cols]
  obtain events' where se: "separate_events df = Inr events'"
    and sin: "row \<in> set (deallocation_events events')" unfolding rr by blast
  have pp: "post_process (Some df) = Inr (Some [row])"
    by (simp add: post_process_def to_mem_event_def cat df_def r_def row_def)
  have ss: "separate_events df = Inr [row]"
    by (simp add: separate_events_def to_mem_event_def cat df_def r_def row_def)
  from se ss sin have d: "row \<in> set (deallocation_events [row])" by simp
  have dd: "deallocation_events [row] = [row]"
    using d by (simp add: deallocation_events_def split: if_splits)
  have aa: "allocation_events [row] = []"
    by (simp add: allocation_events_def row_def)
  from m f cat pp ss dd aa show ?thesis
    unfolding df_def r_def row_def by (intro conjI)
qed

section \<open>Severity bands and confidence\<close>

lemma evaluate_severity_Inr:
  assumes "evaluate_severity self m p = Inr (s, c)"
  shows "growth_slope (thresholds self) \<noteq> 0 \<and> total_allocations m \<noteq> 0
         \<and> fragmentation (thresholds self) \<noteq> 0"
    and "c = min 1 (0.6 * (1 - p) + 0.4 * real_of_int (total_allocations m))"
    and "s = (let w = spec_weighted_score (thresholds self) m in
              if w < 0.2 then NONE else if w < 0.4 then LOW
              else if w < 0.6 then MEDIUM else if w < 0.8 then HIGH else CRITICAL)"
  using assms
  unfolding evaluate_severity_def true_div_def spec_weighted_score_def Let_def
  by (simp_all split: if_splits)

lemma evaluate_severity_total:
  assumes "growth_slope (thresholds self) \<noteq> 0" "total_allocations m \<noteq> 0"
          "fragmentation (thresholds self) \<noteq> 0"
  shows "\<exists>s c. evaluate_severity self m p = Inr (s, c)"
  using assms
  unfolding evaluate_severity_def true_div_def Let_def
  by simp

lemma band_value:
  fixes w w' :: real
  assumes "s = (if w < 0.2 then NONE else if w < 0.4 then LOW
              else if w < 0.6 then MEDIUM else if w < 0.8 then HIGH else CRITICAL)"
  shows "severity_value s = (if w < 0.2 then 1 else if w < 0.4 then 2
              else if w < 0.6 then 3 else if w < 0.8 then 4 else 5)"
  using assms by simp

text \<open>
  Claim C2. With \<open>w\<close> the weighted score \<open>0.4 g + 0.4 u + 0.2 f\<close> of the three
  clamped sub-scores, the severity that \<^const>\<open>evaluate_severity\<close> returns is \<open>NONE\<close> iff
  \<open>w < 0.2\<close>, \<open>LOW\<close> iff \<open>0.2 \<le> w < 0.4\<close>, \<open>MEDIUM\<close> iff \<open>0.4 \<le> w < 0.6\<close>,
  \<open>HIGH\<close> iff \<open>0.6 \<le> w < 0.8\<close> and \<open>CRITICAL\<close> iff \<open>0.8 \<le> w\<close>, so every boundary
  value falls in the higher band; and between any two evaluations the severity does not
  decrease when the weighted score does not. The evaluator does return whenever no divisor
  is zero.
\<close>

theorem severity_bands:
  "(growth_slope (thresholds self) \<noteq> 0 \<and> total_allocations m \<noteq> 0
      \<and> fragmentation (thresholds self) \<noteq> 0
    \<longrightarrow> (\<exists>s c. evaluate_severity self m p = Inr (s, c)))
   \<and> (\<forall>s c. evaluate_severity self m p = Inr (s, c) \<longrightarrow>
        (let w = spec_weighted_score (thresholds self) m in
           (s = NONE \<longleftrightarrow> w < 0.2) \<and> (s = LOW \<longleftrightarrow> 0.2 \<le> w \<and> w < 0.4)
           \<and> (s = MEDIUM \<longleftrightarrow> 0.4 \<le> w \<and> w < 0.6) \<and> (s = HIGH \<longleftrightarrow> 0.6 \<le> w \<and> w < 0.8)
           \<and> (s = CRITICAL \<longleftrightarrow> 0.8 \<le> w)
           \<and> (\<forall>self' m' p' s' c'. evaluate_severity self' m' p' = Inr (s', c')
                  \<longrightarrow> w \<le> spec_weighted_score (thresholds self') m'
                  \<longrightarrow> severity_value s \<le> severity_value s')))"
proof -
  have total: "growth_slope (thresholds self) \<noteq> 0 \<and> total_allocations m \<noteq> 0
      \<and> fragmentation (thresholds self) \<noteq> 0
    \<longrightarrow> (\<exists>s c. evaluate_severity self m p = Inr (s, c))"
    using evaluate_severity_total by blast
  have bands: "(let w = spec_weighted_score (thresholds self) m in
           (s = NONE \<longleftrightarrow> w < 0.2) \<and> (s = LOW \<longleftrightarrow> 0.2 \<le> w \<and> w < 0.4)
           \<and> (s = MEDIUM \<longleftrightarrow> 0.4 \<le> w \<and> w < 0.6) \<and> (s = HIGH \<longleftrightarrow> 0.6 \<le> w \<and> w < 0.8)
           \<and> (s = CRITICAL \<longleftrightarrow> 0.8 \<le> w)
           \<and> (\<forall>self' m' p' s' c'. evaluate_severity self' m' p' = Inr (s', c')
                  \<longrightarrow> w \<le> spec_weighted_score (thresholds self') m'
                  \<longrightarrow> severity_value s \<le> severity_value s'))"
    if r: "evaluate_severity self m p = Inr (s, c)" for s c
  proof -
    define w where "w = spec_weighted_score (thresholds self) m"
    have s: "s = (if w < 0.2 then NONE else if w < 0.4 then LOW
              else if w < 0.6 then MEDIUM else if w < 0.8 then HIGH else CRITICAL)"
      using evaluate_severity_Inr(3)[OF r] by (simp add: w_def Let_def)
    have b: "(s = NONE \<longleftrightarrow> w < 0.2) \<and> (s = LOW \<longleftrightarrow> 0.2 \<le> w \<and> w < 0.4)
           \<and> (s = MEDIUM \<longleftrightarrow> 0.4 \<le> w \<and> w < 0.6) \<and> (s = HIGH \<longleftrightarrow> 0.6 \<le> w \<and> w < 0.8)
           \<and> (s = CRITICAL \<longleftrightarrow> 0.8 \<le> w)"
      using s by simp
    have mono: "severity_value s \<le> severity_value s'"
      if r': "evaluate_severity self' m' p' = Inr (s', c')"
        and le: "w \<le> spec_weighted_score (thresholds self') m'" for self' m' p' s' c'
    proof -
      define w' where "w' = spec_weighted_score (thresholds self') m'"
      have s': "s' = (if w' < 0.2 then NONE else if w' < 0.4 then LOW
              else if w' < 0.6 then MEDIUM else if w' < 0.8 then HIGH else CRITICAL)"
        using evaluate_severity_Inr(3)[OF r'] by (simp add: w'_def Let_def)
      from le have "w \<le> w'" by (simp add: w'_def)
      then show ?thesis
        unfolding band_value[OF s] band_value[OF s'] by simp
    qed
    from b mono show ?thesis unfolding Let_def w_def by blast
  qed
  from total bands show ?thesis by blast
qed


theorem severity_bands_witness:
  "growth_slope (thresholds (example_state None None)) \<noteq> 0
   \<and> spec_weighted_score (thresholds (example_state None None))
        \<lparr>unreleased_allocations = 0, total_allocations = 1, leak_rate = 0.25,
         avg_allocation_size = 0, max_continuous_growth_duration = 0,
         memory_fragmentation_score = 0, regression_slope = 0, regression_intercept = 0\<rparr>
       = 0.2
   \<and> (\<exists>c. evaluate_severity (example_state None None)
        \<lparr>unreleased_allocations = 0, total_allocations = 1, leak_rate = 0.25,
         avg_allocation_size = 0, max_continuous_growth_duration = 0,
         memory_fragmentation_score = 0, regression_slope = 0, regression_intercept = 0\<rparr>
        0.01 = Inr (LOW, c))"
proof -
  define self where "self = example_state None None"
  define m where "m = \<lparr>unreleased_allocations = 0, total_allocations = 1, leak_rate = 0.25,
         avg_allocation_size = 0, max_continuous_growth_duration = 0,
         memory_fragmentation_score = 0, regression_slope = 0, regression_intercept = 0\<rparr>"
  have nz: "growth_slope (thresholds self) \<noteq> 0 \<and> total_allocations m \<noteq> 0
      \<and> fragmentation (thresholds self) \<noteq> 0"
    by (simp add: self_def m_def example_state_def default_thresholds_def)
  have w: "spec_weighted_score (thresholds self) m = 0.2"
    by (simp add: self_def m_def spec_weighted_score_def example_state_def default_thresholds_def)
  note th = severity_bands[of self m "0.01"]
  have "\<exists>s c. evaluate_severity self m 0.01 = Inr (s, c)"
    by (rule mp[OF conjunct1[OF th] nz])
  then obtain s c where r: "evaluate_severity self m 0.01 = Inr (s, c)" by (elim exE)
  note bands = conjunct2[OF th, rule_format, OF r, unfolded Let_def]
  have "s = LOW \<longleftrightarrow> 0.2 \<le> spec_weighted_score (thresholds self) m
      \<and> spec_weighted_score (thresholds self) m < 0.4"
    by (rule bands[THEN conjunct2, THEN conjunct1])
  with w have "s = LOW" by simp
  with r have "\<exists>c. evaluate_severity self m 0.01 = Inr (LOW, c)" by (intro exI[of _ c]) simp
  with nz w show ?thesis unfolding self_def m_def by (intro conjI) simp_all
qed

lemma min_one_clamp:
  fixes x :: real
  shows "min 1 x = clamp x 0 1 \<longleftrightarrow> 0 \<le> x"
  unfolding clamp_def by (simp add: min_def max_def)

text \<open>
  Claim C8, amended. The confidence that \<^const>\<open>evaluate_severity\<close> returns is
  \<open>min 1 (0.6 (1 - p) + 0.4 n)\<close> for the p-value \<open>p\<close> and the allocation count \<open>n\<close>:
  clamped from above only. It is at most 1 always; it is the two-sided clamp of the
  specification, and non-negative, exactly when \<open>0.6 (1 - p) + 0.4 n\<close> is not negative,
  which holds for every p-value up to 1 and every count from 0 on.
\<close>

theorem confidence_upper_bound_only:
  assumes "evaluate_severity self m p = Inr (s, c)"
  shows "c = min 1 (0.6 * (1 - p) + 0.4 * real_of_int (total_allocations m))
         \<and> c \<le> 1
         \<and> (c = spec_confidence p (total_allocations m)
              \<longleftrightarrow> 0 \<le> 0.6 * (1 - p) + 0.4 * real_of_int (total_allocations m))
         \<and> (0 \<le> c \<longleftrightarrow> 0 \<le> 0.6 * (1 - p) + 0.4 * real_of_int (total_allocations m))
         \<and> (p \<le> 1 \<and> 0 \<le> total_allocations m \<longrightarrow> 0 \<le> c \<and> c \<le> 1)"
proof -
  define x where "x = 0.6 * (1 - p) + 0.4 * real_of_int (total_allocations m)"
  have c: "c = min 1 x"
    using evaluate_severity_Inr(2)[OF assms] by (simp add: x_def)
  have nonneg: "0 \<le> x" if "p \<le> 1" "0 \<le> total_allocations m"
    using that by (simp add: x_def)
  have le: "c \<le> 1" using c by simp
  have sc: "spec_confidence p (total_allocations m) = clamp x 0 1"
    by (simp add: spec_confidence_def x_def)
  have eq: "c = spec_confidence p (total_allocations m) \<longleftrightarrow> 0 \<le> x"
    unfolding sc c by (rule min_one_clamp)
  have pos: "0 \<le> c \<longleftrightarrow> 0 \<le> x" unfolding c by (simp add: min_def)
  have last: "p \<le> 1 \<and> 0 \<le> total_allocations m \<longrightarrow> 0 \<le> c \<and> c \<le> 1"
    using nonneg pos le by simp
  show ?thesis using c le eq pos last unfolding x_def by (intro conjI)
qed

theorem confidence_upper_bound_only_witness:
  "evaluate_severity (example_state None None)
        \<lparr>unreleased_allocations = 0, total_allocations = 1, leak_rate = 0.25,
         avg_allocation_size = 0, max_continuous_growth_duration = 0,
         memory_fragmentation_score = 0, regression_slope = 0, regression_intercept = 0\<rparr>
        0.5 = Inr (LOW, 0.7)
   \<and> (0.7::real) = spec_confidence 0.5 1"
proof -
  have r: "evaluate_severity (example_state None None)
        \<lparr>unreleased_allocations = 0, total_allocations = 1, leak_rate = 0.25,
         avg_allocation_size = 0, max_continuous_growth_duration = 0,
         memory_fragmentation_score = 0, regression_slope = 0, regression_intercept = 0\<rparr>
        0.5 = Inr (LOW, 0.7)"
    by (simp add: evaluate_severity_def true_div_def example_state_def default_thresholds_def)
  note th = confidence_upper_bound_only[OF r]
  have "(0.7::real) = spec_confidence 0.5 1"
    using th[THEN conjunct2, THEN conjunct2, THEN conjunct1] by simp
  with r show ?thesis by (intro conjI)
qed

text \<open>
  The claim as stated fails for a p-value above 1: with one allocation and \<open>p = 3\<close> the
  evaluator returns the confidence \<open>-0.8\<close>, where the clamp gives 0.
\<close>

theorem negative_confidence_counterexample:
  "evaluate_severity (example_state None None)
        \<lparr>unreleased_allocations = 0, total_allocations = 1, leak_rate = 0,
         avg_allocation_size = 0, max_continuous_growth_duration = 0,
         memory_fragmentation_score = 0, regression_slope = 0, regression_intercept = 0\<rparr>
        3 = Inr (NONE, - 0.8)
   \<and> spec_confidence 3 1 = 0"
  by (simp add: evaluate_severity_def true_div_def example_state_def default_thresholds_def
      spec_confidence_def clamp_def)

section \<open>Growth rate of the trend\<close>

text \<open>
  Claim C4, amended. Whenever \<^const>\<open>analyze_memory_trend\<close> returns a trend, its growth
  rate is the regression slope when the slope is positive and zero otherwise, whatever the
  p-value; the significance flag is reported next to it and is true exactly when the
  p-value is below 0.05.
\<close>

theorem growth_rate_ignores_significance:
  assumes "analyze_memory_trend ext self = Inr (Some tr)"
  shows "growth_rate tr = (if slope tr > 0 then slope tr else 0)
         \<and> is_significant tr = (p_value tr < 0.05)"
proof -
  from assms obtain df where df: "memory_usage self = Some df" "\<not> frame_empty df"
    unfolding analyze_memory_trend_def by (auto split: option.splits if_splits)
  from assms df obtain t0 v0 rest where n: "normalize ext df = (t0, v0) # rest"
    unfolding analyze_memory_trend_def by (auto split: list.splits)
  from assms df n obtain sl ic r p where
    tr: "tr = \<lparr>slope = sl, intercept = ic, r_squared = r ^ 2, p_value = p,
               growth_rate = (if sl > 0 then sl else 0), is_significant = (p < 0.05),
               trend_rolling_mean = rolling_mean ext (window_size (thresholds self)) ((t0, v0) # rest),
               trend_rolling_std = rolling_std ext (window_size (thresholds self)) ((t0, v0) # rest)\<rparr>"
    unfolding analyze_memory_trend_def Let_def
    by (auto split: sum.splits prod.splits)
  show ?thesis unfolding tr by simp
qed

theorem growth_rate_ignores_significance_witness:
  "analyze_memory_trend example_externals (example_state None (Some example_memory)) =
     Inr (Some \<lparr>slope = 0.2, intercept = 0.2, r_squared = 0.4472 ^ 2, p_value = 0.5528,
                growth_rate = 0.2, is_significant = False,
                trend_rolling_mean = example_memory,
                trend_rolling_std = map (\<lambda>(t, v). (t, None)) example_memory\<rparr>)
   \<and> (0.2::real) = (if (0.2::real) > 0 then 0.2 else 0)"
proof -
  have r: "analyze_memory_trend example_externals (example_state None (Some example_memory)) =
     Inr (Some \<lparr>slope = 0.2, intercept = 0.2, r_squared = 0.4472 ^ 2, p_value = 0.5528,
                growth_rate = 0.2, is_significant = False,
                trend_rolling_mean = example_memory,
                trend_rolling_std = map (\<lambda>(t, v). (t, None)) example_memory\<rparr>)"
    by (simp add: analyze_memory_trend_def example_externals_def example_state_def
        example_memory_def frame_empty_def default_thresholds_def)
  from growth_rate_ignores_significance[OF r] r show ?thesis by simp
qed

text \<open>
  The claim as stated fails on a series whose regression has a positive slope and a
  p-value of at least 0.05: the growth rate is the slope, not zero.
\<close>

theorem insignificant_growth_counterexample:
  "(case analyze_memory_trend example_externals (example_state None (Some example_memory)) of
      Inr (Some tr) \<Rightarrow> slope tr > 0 \<and> \<not> p_value tr < 0.05 \<and> growth_rate tr = slope tr
                        \<and> growth_rate tr \<noteq> 0
    | _ \<Rightarrow> False)"
  by (simp add: analyze_memory_trend_def example_externals_def example_state_def
        example_memory_def frame_empty_def default_thresholds_def)

section \<open>What presentation does to a result\<close>

lemma interpret_analysis_result:
  "interpret_analysis self r = Inr (r', self') \<Longrightarrow> r' = r"
  unfolding interpret_analysis_def
  by (auto split: option.splits prod.splits)

lemma plot_without_memory:
  "missing_or_empty (memory_usage self) \<Longrightarrow> fst (plot_memory_leak_analysis self r) = r"
  unfolding plot_memory_leak_analysis_def missing_or_empty_def Let_def frame_empty_def
  by (auto split: option.splits)

lemma plot_with_memory:
  assumes "memory_usage self = Some df" and "series_max (map snd df) = Some peak"
  shows "fst (plot_memory_leak_analysis self r) =
           r\<lparr>metrics := (metrics r)\<lparr>regression_intercept := regression_intercept (metrics r) * peak,
                                      regression_slope := regression_slope (metrics r) * peak\<rparr>\<rparr>"
proof -
  from assms(2) have "df \<noteq> []" by auto
  with assms show ?thesis
    unfolding plot_memory_leak_analysis_def Let_def frame_empty_def
    by simp
qed

lemma plot_cases:
  "missing_or_empty (memory_usage self)
   \<or> (\<exists>df peak. memory_usage self = Some df \<and> series_max (map snd df) = Some peak)"
proof (cases "memory_usage self")
  case None
  then show ?thesis by (simp add: missing_or_empty_def)
next
  case (Some df)
  then show ?thesis
    by (cases df) (simp_all add: missing_or_empty_def frame_empty_def)
qed

text \<open>
  Claim C9, amended. \<^verbatim>\<open>interpret\<close> leaves the result as it is. The plotting method
  leaves severity, confidence, patterns, suspicious locations and six of the eight
  metrics as they are, and leaves the whole result as it is when the memory usage table
  is missing or empty; with a memory usage table that has samples it multiplies
  \<^verbatim>\<open>regression_slope\<close> and \<^verbatim>\<open>regression_intercept\<close> of the result by the maximum of
  the memory usage, in place.
\<close>

theorem presentation_scales_regression_only:
  "(\<forall>r' self'. interpret_analysis self r = Inr (r', self') \<longrightarrow> r' = r)
   \<and> (let r' = fst (plot_memory_leak_analysis self r) in
        severity r' = severity r \<and> confidence_score r' = confidence_score r
        \<and> detected_patterns r' = detected_patterns r
        \<and> suspicious_locations r' = suspicious_locations r
        \<and> unreleased_allocations (metrics r') = unreleased_allocations (metrics r)
        \<and> total_allocations (metrics r') = total_allocations (metrics r)
        \<and> leak_rate (metrics r') = leak_rate (metrics r)
        \<and> avg_allocation_size (metrics r') = avg_allocation_size (metrics r)
        \<and> max_continuous_growth_duration (metrics r') = max_continuous_growth_duration (metrics r)
        \<and> memory_fragmentation_score (metrics r') = memory_fragmentation_score (metrics r)
        \<and> (missing_or_empty (memory_usage self) \<longrightarrow> r' = r)
        \<and> (\<forall>df peak. memory_usage self = Some df \<and> series_max (map snd df) = Some peak
              \<longrightarrow> regression_slope (metrics r') = regression_slope (metrics r) * peak
                \<and> regression_intercept (metrics r') = regression_intercept (metrics r) * peak))"
proof -
  have a: "\<forall>r' self'. interpret_analysis self r = Inr (r', self') \<longrightarrow> r' = r"
    using interpret_analysis_result by blast
  define r' where "r' = fst (plot_memory_leak_analysis self r)"
  have c1: "missing_or_empty (memory_usage self) \<longrightarrow> r' = r"
    unfolding r'_def using plot_without_memory by blast
  have c2: "\<forall>df peak. memory_usage self = Some df \<and> series_max (map snd df) = Some peak
              \<longrightarrow> regression_slope (metrics r') = regression_slope (metrics r) * peak
                \<and> regression_intercept (metrics r') = regression_intercept (metrics r) * peak"
    unfolding r'_def by (auto simp: plot_with_memory)
  have frame: "severity r' = severity r \<and> confidence_score r' = confidence_score r
        \<and> detected_patterns r' = detected_patterns r
        \<and> suspicious_locations r' = suspicious_locations r
        \<and> unreleased_allocations (metrics r') = unreleased_allocations (metrics r)
        \<and> total_allocations (metrics r') = total_allocations (metrics r)
        \<and> leak_rate (metrics r') = leak_rate (metrics r)
        \<and> avg_allocation_size (metrics r') = avg_allocation_size (metrics r)
        \<and> max_continuous_growth_duration (metrics r') = max_continuous_growth_duration (metrics r)
        \<and> memory_fragmentation_score (metrics r') = memory_fragmentation_score (metrics r)"
    using plot_cases[of self]
  proof
    assume "missing_or_empty (memory_usage self)"
    with c1 show ?thesis by simp
  next
    assume "\<exists>df peak. memory_usage self = Some df \<and> series_max (map snd df) = Some peak"
    then obtain df peak where "memory_usage self = Some df" "series_max (map snd df) = Some peak"
      by blast
    from plot_with_memory[OF this] show ?thesis unfolding r'_def by simp
  qed
  from a c1 c2 frame show ?thesis unfolding Let_def r'_def by (intro conjI) simp_all
qed

theorem presentation_scales_regression_only_witness:
  "memory_usage example_leak_state = Some example_memory_bytes
   \<and> series_max (map snd example_memory_bytes) = Some 2048
   \<and> regression_slope (metrics (fst (plot_memory_leak_analysis example_leak_state
        \<lparr>severity = HIGH, confidence_score = 0.66832,
         metrics = \<lparr>unreleased_allocations = 1, total_allocations = 1, leak_rate = 0.2,
                    avg_allocation_size = 16, max_continuous_growth_duration = 0,
                    memory_fragmentation_score = 1, regression_slope = 0.2,
                    regression_intercept = 0.2\<rparr>,
         detected_patterns = [], suspicious_locations = []\<rparr>))) = 0.2 * 2048"
proof -
  define r where "r = \<lparr>severity = HIGH, confidence_score = 0.66832,
         metrics = \<lparr>unreleased_allocations = 1, total_allocations = 1, leak_rate = 0.2,
                    avg_allocation_size = 16, max_continuous_growth_duration = 0,
                    memory_fragmentation_score = 1, regression_slope = 0.2,
                    regression_intercept = 0.2\<rparr>,
         detected_patterns = [], suspicious_locations = []\<rparr>"
  have m: "memory_usage example_leak_state = Some example_memory_bytes"
    by (simp add: example_leak_state_def example_state_def)
  have p: "series_max (map snd example_memory_bytes) = Some 2048"
    by (simp add: example_memory_bytes_def)
  note th = presentation_scales_regression_only[of example_leak_state r, unfolded Let_def]
  have "\<forall>df peak. memory_usage example_leak_state = Some df \<and> series_max (map snd df) = Some peak
          \<longrightarrow> regression_slope (metrics (fst (plot_memory_leak_analysis example_leak_state r)))
                = regression_slope (metrics r) * peak
              \<and> regression_intercept (metrics (fst (plot_memory_leak_analysis example_leak_state r)))
                = regression_intercept (metrics r) * peak"
    using th by (elim conjE)
  with m p have "regression_slope (metrics (fst (plot_memory_leak_analysis example_leak_state r)))
                = regression_slope (metrics r) * 2048" by blast
  then have "regression_slope (metrics (fst (plot_memory_leak_analysis example_leak_state r)))
                = 0.2 * 2048" by (simp add: r_def)
  with m p show ?thesis unfolding r_def by (intro conjI)
qed

text \<open>
  The claim as stated fails: on the result that the analysis constructs for a trace with
  a peak usage of 2048, plotting turns slope and intercept from 0.2 into 409.6.
\<close>

theorem plot_rescales_metrics_counterexample:
  "(case analyze_memory_leaks example_externals example_leak_state ''1s'' 0.7 0.5 of
      Inr (r, self') \<Rightarrow>
        regression_slope (metrics r) = 0.2
        \<and> regression_slope (metrics (fst (plot_memory_leak_analysis self' r))) = 409.6
        \<and> regression_intercept (metrics r) = 0.2
        \<and> regression_intercept (metrics (fst (plot_memory_leak_analysis self' r))) = 409.6
    | Inl e \<Rightarrow> False)"
  by code_simp

section \<open>One allocation record per pointer\<close>






























end
